theory Spec2Isabelle
  imports Main
begin

section \<open>The static file server \<open>start.py\<close>\<close>

text \<open>
  \<open>start.py\<close> parses two command-line options and hands them to \<open>serve_static\<close>, which
  changes the working directory, constructs a \<open>socketserver.TCPServer\<close> inside a
  \<^verbatim>\<open>with\<close> statement, prints a status line and runs \<open>serve_forever\<close> inside a
  \<^verbatim>\<open>try\<close> whose only handler is for \<open>KeyboardInterrupt\<close>.

  The program is embedded as functions that pass the state of the process along. What the
  operating system and the standard library decide (whether a directory can be entered,
  whether an address can be bound, how the serve loop ends, what \<open>int\<close> accepts) is a
  parameter of the model, the record \<open>env\<close>; every theorem holds for every such
  environment.
\<close>

subsection \<open>Exceptions and results\<close>

text \<open>
  The exceptions that matter to the control flow. \<open>OSError\<close> carries the name of its errno,
  \<open>SystemExit\<close> the exit status that \<open>argparse\<close> passes to \<open>sys.exit\<close>.
\<close>

datatype exn =
    KeyboardInterrupt
  | OSError string
  | SystemExit int
  | OtherException string

text \<open>
  A call returns a value, raises, or never comes back (\<open>serve_forever\<close> with nobody
  interrupting it).
\<close>

datatype 'a result = Returned 'a | Raised exn | Blocked

subsection \<open>The state of the process\<close>

datatype handler = SimpleHTTPRequestHandler

text \<open>The calls the program makes into the operating system and the library, in order.\<close>

datatype event =
    CallChdir string
  | CallTCPServer "string \<times> int" handler
  | CallPrint string
  | CallServeForever
  | CallServerClose

text \<open>
  \<open>cwd\<close> is the working directory, named by the path it was entered with; \<open>sockets\<close> are
  the listening sockets this process owns, as (interface, port); \<open>connections\<close> are the
  accepted client connections this process holds open; \<open>stdout\<close> is what \<open>print\<close> has
  written; \<open>trace\<close> is the history of calls, oldest first.
\<close>

record world =
  cwd :: string
  sockets :: "(string \<times> int) list"
  connections :: "nat list"
  stdout :: string
  trace :: "event list"

datatype outcome = Returns | Raises exn | RunsForever

text \<open>
  The environment: \<open>py_int\<close> is the builtin \<open>int\<close> on a string (\<open>None\<close> for
  \<open>ValueError\<close>); \<open>chdir_error\<close> is the exception \<open>os.chdir\<close> raises for a path, if any;
  \<open>bind_error\<close> is the exception binding and activating the server socket raises for an
  address, if any; \<open>ephemeral_port\<close> is the port the operating system assigns to a socket
  bound to port 0; \<open>serve_outcome\<close> is how \<open>serve_forever\<close> ends; \<open>served\<close> are the
  client connections the serve loop accepts and serves to the end before that, in order;
  \<open>in_service\<close> is the connection whose handler is running when an exception ends the
  loop (\<open>None\<close> when the exception arrives while the loop waits for a connection).
\<close>

record env =
  py_int :: "string \<Rightarrow> int option"
  chdir_error :: "string \<Rightarrow> exn option"
  bind_error :: "string \<times> int \<Rightarrow> exn option"
  ephemeral_port :: int
  serve_outcome :: outcome
  served :: "nat list"
  in_service :: "nat option"

subsection \<open>The library calls of \<open>serve_static\<close>\<close>

definition newline :: char where
  "newline = CHR 0x0A"

text \<open>\<open>print(s)\<close> writes \<open>s\<close> and a newline to standard output.\<close>

definition print :: "string \<Rightarrow> world \<Rightarrow> world" where
  "print s w = w\<lparr>stdout := stdout w @ s @ [newline], trace := trace w @ [CallPrint s]\<rparr>"

text \<open>\<open>os.chdir(path)\<close>: raises and leaves the working directory alone, or enters \<open>path\<close>.\<close>

definition os_chdir :: "env \<Rightarrow> string \<Rightarrow> world \<Rightarrow> unit result \<times> world" where
  "os_chdir e path w =
     (let w' = w\<lparr>trace := trace w @ [CallChdir path]\<rparr>
      in case chdir_error e path of
           Some x \<Rightarrow> (Raised x, w')
         | None \<Rightarrow> (Returned (), w'\<lparr>cwd := path\<rparr>))"

record server =
  server_address :: "string \<times> int"
  RequestHandlerClass :: handler

text \<open>
  The address a socket bound to \<open>addr\<close> reports, \<open>socket.getsockname()\<close>: the empty host
  of an IPv4 address stands for every interface and reads \<open>0.0.0.0\<close>, and port 0 asks
  the operating system to choose the port.
\<close>

definition getsockname :: "env \<Rightarrow> string \<times> int \<Rightarrow> string \<times> int" where
  "getsockname e addr =
     (if fst addr = [] then ''0.0.0.0'' else fst addr,
      if snd addr = 0 then ephemeral_port e else snd addr)"

text \<open>
  \<open>socketserver.TCPServer(addr, handler)\<close> binds and activates its socket in the
  constructor; \<open>server_bind\<close> binds the socket and then sets \<open>server_address\<close> to
  \<open>getsockname()\<close>. When that raises, the constructor closes the socket again and
  re-raises, so no server object and no listening socket exist afterwards.
\<close>

definition TCPServer :: "env \<Rightarrow> string \<times> int \<Rightarrow> handler \<Rightarrow> world \<Rightarrow> server result \<times> world" where
  "TCPServer e addr h w =
     (let w' = w\<lparr>trace := trace w @ [CallTCPServer addr h]\<rparr>
      in case bind_error e addr of
           Some x \<Rightarrow> (Raised x, w')
         | None \<Rightarrow>
             (Returned \<lparr>server_address = getsockname e addr, RequestHandlerClass = h\<rparr>,
              w'\<lparr>sockets := getsockname e addr # sockets w'\<rparr>))"

text \<open>\<open>SimpleHTTPRequestHandler\<close> resolves request paths against the working directory.\<close>

fun served_root :: "handler \<Rightarrow> world \<Rightarrow> string" where
  "served_root SimpleHTTPRequestHandler w = cwd w"

text \<open>
  The serve loop of a plain \<open>TCPServer\<close> handles one connection at a time:
  \<open>get_request\<close> accepts it, \<open>process_request\<close> runs the handler (\<open>finish_request\<close>) and
  then closes the connection (\<open>shutdown_request\<close>).
\<close>

definition get_request :: "nat \<Rightarrow> world \<Rightarrow> world" where
  "get_request c w = w\<lparr>connections := c # connections w\<rparr>"

definition shutdown_request :: "nat \<Rightarrow> world \<Rightarrow> world" where
  "shutdown_request c w = w\<lparr>connections := remove1 c (connections w)\<rparr>"

text \<open>The handler answers on its connection; it changes nothing that the state records.\<close>

definition finish_request :: "nat \<Rightarrow> world \<Rightarrow> world" where
  "finish_request c w = w"

definition process_request :: "nat \<Rightarrow> world \<Rightarrow> world" where
  "process_request c w = shutdown_request c (finish_request c w)"

fun handle_requests :: "nat list \<Rightarrow> world \<Rightarrow> world" where
  "handle_requests [] w = w"
| "handle_requests (c # cs) w = handle_requests cs (process_request c (get_request c w))"

text \<open>
  A request whose handler is cut short by the exception that ends the loop: the
  connection has been accepted, and the \<^verbatim>\<open>except\<close> clause around
  \<open>process_request\<close> closes it (\<open>shutdown_request\<close>) before it re-raises.
\<close>

fun aborted_request :: "nat option \<Rightarrow> world \<Rightarrow> world" where
  "aborted_request None w = w"
| "aborted_request (Some c) w = shutdown_request c (get_request c w)"

definition serve_forever :: "env \<Rightarrow> server \<Rightarrow> world \<Rightarrow> unit result \<times> world" where
  "serve_forever e httpd w =
     (let w' = handle_requests (served e) (w\<lparr>trace := trace w @ [CallServeForever]\<rparr>)
      in case serve_outcome e of
           Returns \<Rightarrow> (Returned (), w')
         | Raises x \<Rightarrow> (Raised x, aborted_request (in_service e) w')
         | RunsForever \<Rightarrow> (Blocked, w'))"

text \<open>
  \<open>server_close()\<close> closes the listening socket of the server, and nothing else: the
  connections are closed by the serve loop.
\<close>

definition server_close :: "server \<Rightarrow> world \<Rightarrow> world" where
  "server_close httpd w =
     w\<lparr>sockets := remove1 (server_address httpd) (sockets w),
       trace := trace w @ [CallServerClose]\<rparr>"

text \<open>
  Leaving a \<^verbatim>\<open>with\<close> block, normally or by an exception, calls the server's
  \<open>__exit__\<close>, which is \<open>server_close()\<close> and returns \<open>None\<close>: an exception keeps
  propagating. A block that never ends is never left.
\<close>

fun with_exit :: "server \<Rightarrow> unit result \<times> world \<Rightarrow> unit result \<times> world" where
  "with_exit httpd (Blocked, w) = (Blocked, w)"
| "with_exit httpd (r, w) = (r, server_close httpd w)"

subsection \<open>\<open>serve_static\<close>\<close>

definition digit_char :: "nat \<Rightarrow> char" where
  "digit_char n = char_of (48 + n)"

fun str_nat :: "nat \<Rightarrow> string" where
  "str_nat n = (if n < 10 then [digit_char n] else str_nat (n div 10) @ [digit_char (n mod 10)])"

declare str_nat.simps [simp del]

text \<open>\<open>str\<close> of an integer, as the f-string formats \<open>port\<close>.\<close>

definition str_int :: "int \<Rightarrow> string" where
  "str_int i = (if i < 0 then CHR ''-'' # str_nat (nat (- i)) else str_nat (nat i))"

definition startup_message :: "string \<Rightarrow> int \<Rightarrow> string" where
  "startup_message directory port =
     ''Serving static files from '' @ [CHR 0x27] @ directory @ [CHR 0x27]
       @ '' at http://localhost:'' @ str_int port"

definition shutdown_message :: string where
  "shutdown_message = newline # ''Shutting down the server.''"

text \<open>Lines 14 to 18: the body of the \<^verbatim>\<open>with\<close> statement.\<close>

definition with_body :: "env \<Rightarrow> int \<Rightarrow> string \<Rightarrow> server \<Rightarrow> world \<Rightarrow> unit result \<times> world" where
  "with_body e port directory httpd w =
     (let w1 = print (startup_message directory port) w
      in case serve_forever e httpd w1 of
           (Raised x, w2) \<Rightarrow>
             (if x = KeyboardInterrupt then (Returned (), print shutdown_message w2)
              else (Raised x, w2))
         | (r, w2) \<Rightarrow> (r, w2))"

text \<open>Lines 7 to 18.\<close>

definition serve_static :: "env \<Rightarrow> int \<Rightarrow> string \<Rightarrow> world \<Rightarrow> unit result \<times> world" where
  "serve_static e port directory w =
     (case os_chdir e directory w of
        (Raised x, w1) \<Rightarrow> (Raised x, w1)
      | (Blocked, w1) \<Rightarrow> (Blocked, w1)
      | (Returned _, w1) \<Rightarrow>
          (let handler = SimpleHTTPRequestHandler
           in case TCPServer e ('''', port) handler w1 of
                (Raised x, w2) \<Rightarrow> (Raised x, w2)
              | (Blocked, w2) \<Rightarrow> (Blocked, w2)
              | (Returned httpd, w2) \<Rightarrow> with_exit httpd (with_body e port directory httpd w2)))"

text \<open>The calls made since the state \<open>w\<close>, given the later state \<open>w'\<close>.\<close>

definition new_events :: "world \<Rightarrow> world \<Rightarrow> event list" where
  "new_events w w' = drop (length (trace w)) (trace w')"

subsection \<open>How the process ends\<close>

text \<open>
  A script that runs to its end exits with status 0, \<open>SystemExit n\<close> exits with status
  \<open>n\<close>, and any other exception that nobody catches ends the process with a nonzero
  status.
\<close>

datatype exit = Success | Failure | StillRunning

fun process_exit :: "unit result \<Rightarrow> exit" where
  "process_exit (Returned _) = Success"
| "process_exit (Raised (SystemExit n)) = (if n = 0 then Success else Failure)"
| "process_exit (Raised _) = Failure"
| "process_exit Blocked = StillRunning"

subsection \<open>The command line\<close>

datatype py_type = TInt | TStr

datatype py_value = VInt int | VStr string

record argument =
  option_string :: string
  arg_type :: py_type
  arg_default :: py_value

record argument_parser =
  add_help :: bool
  arguments :: "argument list"

text \<open>
  \<open>argparse.ArgumentParser(description=...)\<close>: the source leaves \<open>add_help\<close> at the
  library's default, so the parser also has the option \<open>-h\<close>/\<open>--help\<close>.
\<close>

definition ArgumentParser :: argument_parser where
  "ArgumentParser = \<lparr>add_help = True, arguments = []\<rparr>"

definition add_argument :: "string \<Rightarrow> py_type \<Rightarrow> py_value \<Rightarrow> argument_parser \<Rightarrow> argument_parser" where
  "add_argument name ty dflt ps =
     ps\<lparr>arguments := arguments ps @ [\<lparr>option_string = name, arg_type = ty, arg_default = dflt\<rparr>]\<rparr>"

text \<open>Lines 21 to 31.\<close>

definition parser :: argument_parser where
  "parser =
     add_argument ''--directory'' TStr (VStr ''.'')
       (add_argument ''--port'' TInt (VInt 8000) ArgumentParser)"

text \<open>
  The command line as \<open>argparse\<close> has matched it against the option strings, left to
  right: an option with its value (\<open>None\<close> when the value is missing), the help option, or
  an argument that matches nothing. How the library matches the raw strings (exact names,
  abbreviations, \<open>--name=value\<close>) is not part of the model.
\<close>

datatype cli_item = Opt string "string option" | Help | Unrecognized string

type_synonym namespace = "string \<rightharpoonup> py_value"

text \<open>The attribute an option is stored under: \<open>--port\<close> becomes \<open>port\<close>.\<close>

definition dest :: "string \<Rightarrow> string" where
  "dest name =
     map (\<lambda>c. if c = CHR ''-'' then CHR ''_'' else c) (dropWhile (\<lambda>c. c = CHR ''-'') name)"

text \<open>The \<open>type=\<close> conversion of a value; \<open>None\<close> when the conversion raises.\<close>

fun get_value :: "env \<Rightarrow> py_type \<Rightarrow> string \<Rightarrow> py_value option" where
  "get_value e TInt s = map_option VInt (py_int e s)"
| "get_value e TStr s = Some (VStr s)"

definition defaults :: "argument_parser \<Rightarrow> namespace" where
  "defaults ps = map_of (map (\<lambda>a. (dest (option_string a), arg_default a)) (arguments ps))"

text \<open>
  The actions run in the order of the command line. A value that is missing or does not
  convert is a usage error, \<open>sys.exit(2)\<close>, at once; the help action prints the help and
  calls \<open>sys.exit(0)\<close> at once; unmatched arguments are collected and are a usage error
  at the end.
\<close>

fun consume ::
  "env \<Rightarrow> argument_parser \<Rightarrow> cli_item list \<Rightarrow> namespace \<Rightarrow> string list \<Rightarrow> namespace result" where
  "consume e ps [] ns extras = (if extras = [] then Returned ns else Raised (SystemExit 2))"
| "consume e ps (Help # xs) ns extras =
     (if add_help ps then Raised (SystemExit 0) else consume e ps xs ns (extras @ [''-h'']))"
| "consume e ps (Unrecognized s # xs) ns extras = consume e ps xs ns (extras @ [s])"
| "consume e ps (Opt name v # xs) ns extras =
     (case find (\<lambda>a. option_string a = name) (arguments ps) of
        None \<Rightarrow> consume e ps xs ns (extras @ [name])
      | Some a \<Rightarrow>
          (case v of
             None \<Rightarrow> Raised (SystemExit 2)
           | Some s \<Rightarrow>
               (case get_value e (arg_type a) s of
                  None \<Rightarrow> Raised (SystemExit 2)
                | Some x \<Rightarrow> consume e ps xs (ns(dest name \<mapsto> x)) extras)))"

definition parse_args :: "env \<Rightarrow> argument_parser \<Rightarrow> cli_item list \<Rightarrow> namespace result" where
  "parse_args e ps argv = consume e ps argv (defaults ps) []"

text \<open>
  Lines 20 to 33. \<open>args.port\<close> and \<open>args.directory\<close> are read from the namespace; the
  last branch (an attribute that is missing or of another type) is never taken, see
  \<open>parse_args_typed\<close>.
\<close>

definition main :: "env \<Rightarrow> cli_item list \<Rightarrow> world \<Rightarrow> unit result \<times> world" where
  "main e argv w =
     (case parse_args e parser argv of
        Raised x \<Rightarrow> (Raised x, w)
      | Blocked \<Rightarrow> (Blocked, w)
      | Returned args \<Rightarrow>
          (case (args ''port'', args ''directory'') of
             (Some (VInt port), Some (VStr directory)) \<Rightarrow> serve_static e port directory w
           | _ \<Rightarrow> (Raised (OtherException ''AttributeError''), w)))"

text \<open>The values given to one option on a command line, in order.\<close>

fun option_values :: "string \<Rightarrow> cli_item list \<Rightarrow> string list" where
  "option_values name [] = []"
| "option_values name (Opt n (Some v) # xs) =
     (if n = name then v # option_values name xs else option_values name xs)"
| "option_values name (_ # xs) = option_values name xs"

subsection \<open>A concrete environment\<close>

text \<open>
  An environment and a starting state to run the model on: the directories \<open>/srv/www\<close>
  and \<open>.\<close> exist, port 80 is taken, a socket bound to port 0 gets port 49152, \<open>int\<close>
  is given on the strings used below, and the serve loop serves two connections and is
  interrupted from the keyboard while it serves a third.
\<close>

definition example_env :: env where
  "example_env =
     \<lparr>py_int = map_of [(''8000'', 8000), (''8080'', 8080), (''80'', 80)],
      chdir_error = (\<lambda>path. if path = ''/srv/www'' \<or> path = ''.'' then None
                             else Some (OSError ''ENOENT'')),
      bind_error = (\<lambda>addr. if snd addr = 80 then Some (OSError ''EADDRINUSE'') else None),
      ephemeral_port = 49152,
      serve_outcome = Raises KeyboardInterrupt,
      served = [1, 2],
      in_service = Some 3\<rparr>"

definition initial_world :: world where
  "initial_world =
     \<lparr>cwd = ''/home/user'', sockets = [], connections = [], stdout = [], trace = []\<rparr>"

section \<open>Properties\<close>

subsection \<open>Helper facts\<close>

lemmas serve_defs =
  serve_static_def os_chdir_def TCPServer_def with_body_def serve_forever_def print_def
  server_close_def new_events_def getsockname_def Let_def

text \<open>
  The serve loop touches only the connections, and it leaves none open: each one is
  closed right after it has been served or cut short.
\<close>

lemma request_fields [simp]:
  "cwd (get_request c w) = cwd w" "cwd (shutdown_request c w) = cwd w"
  "sockets (get_request c w) = sockets w" "sockets (shutdown_request c w) = sockets w"
  "stdout (get_request c w) = stdout w" "stdout (shutdown_request c w) = stdout w"
  "trace (get_request c w) = trace w" "trace (shutdown_request c w) = trace w"
  "connections (get_request c w) = c # connections w"
  "connections (shutdown_request c w) = remove1 c (connections w)"
  by (simp_all add: get_request_def shutdown_request_def)

lemma process_request_fields [simp]:
  "cwd (process_request c w) = cwd w"
  "sockets (process_request c w) = sockets w"
  "stdout (process_request c w) = stdout w"
  "trace (process_request c w) = trace w"
  "connections (process_request c w) = remove1 c (connections w)"
  by (simp_all add: process_request_def finish_request_def)

lemma handle_requests_fields [simp]:
  "cwd (handle_requests cs w) = cwd w"
  "sockets (handle_requests cs w) = sockets w"
  "stdout (handle_requests cs w) = stdout w"
  "trace (handle_requests cs w) = trace w"
  "connections (handle_requests cs w) = connections w"
  by (induction cs arbitrary: w) simp_all

lemma aborted_request_fields [simp]:
  "cwd (aborted_request co w) = cwd w"
  "sockets (aborted_request co w) = sockets w"
  "stdout (aborted_request co w) = stdout w"
  "trace (aborted_request co w) = trace w"
  "connections (aborted_request co w) = connections w"
  by (cases co; simp)+

declare consume.simps [simp del]

lemma parser_arguments:
  "arguments parser =
     [\<lparr>option_string = ''--port'', arg_type = TInt, arg_default = VInt 8000\<rparr>,
      \<lparr>option_string = ''--directory'', arg_type = TStr, arg_default = VStr ''.''\<rparr>]"
  by (simp add: parser_def add_argument_def ArgumentParser_def)

lemma parser_add_help: "add_help parser"
  by (simp add: parser_def add_argument_def ArgumentParser_def)

lemma dest_port: "dest ''--port'' = ''port''"
  by (simp add: dest_def)

lemma dest_directory: "dest ''--directory'' = ''directory''"
  by (simp add: dest_def)

lemma defaults_parser:
  "defaults parser ''port'' = Some (VInt 8000)"
  "defaults parser ''directory'' = Some (VStr ''.'')"
  by (simp_all add: defaults_def parser_arguments dest_port dest_directory)

text \<open>The startup line of \<open>serve_static(8000, "/srv/www")\<close>.\<close>

lemma startup_message_example:
  "startup_message ''/srv/www'' 8000 =
     ''Serving static files from '' @ [CHR 0x27] @ ''/srv/www'' @ [CHR 0x27]
       @ '' at http://localhost:8000''"
proof -
  have "char_of (56::nat) = CHR ''8''" by code_simp
  moreover have "char_of (48::nat) = CHR ''0''" by code_simp
  ultimately show ?thesis
    by (simp add: startup_message_def str_int_def str_nat.simps digit_char_def)
qed

text \<open>What \<open>consume\<close> does with each kind of item under the parser of \<open>start.py\<close>.\<close>

lemma consume_port:
  "consume e parser (Opt ''--port'' (Some s) # xs) ns ex =
     (case py_int e s of
        None \<Rightarrow> Raised (SystemExit 2)
      | Some n \<Rightarrow> consume e parser xs (ns(''port'' \<mapsto> VInt n)) ex)"
  by (simp add: consume.simps parser_arguments dest_port split: option.splits)

lemma consume_directory:
  "consume e parser (Opt ''--directory'' (Some s) # xs) ns ex =
     consume e parser xs (ns(''directory'' \<mapsto> VStr s)) ex"
  by (simp add: consume.simps parser_arguments dest_directory)

lemma consume_missing_value:
  "name = ''--port'' \<or> name = ''--directory'' \<Longrightarrow>
   consume e parser (Opt name None # xs) ns ex = Raised (SystemExit 2)"
  by (auto simp add: consume.simps parser_arguments)

lemma consume_undeclared:
  "name \<noteq> ''--port'' \<Longrightarrow> name \<noteq> ''--directory'' \<Longrightarrow>
   consume e parser (Opt name v # xs) ns ex = consume e parser xs ns (ex @ [name])"
  by (simp add: consume.simps parser_arguments)

lemma consume_help: "consume e parser (Help # xs) ns ex = Raised (SystemExit 0)"
  by (simp add: consume.simps parser_add_help)

lemma consume_unrecognized:
  "consume e ps (Unrecognized s # xs) ns ex = consume e ps xs ns (ex @ [s])"
  by (simp add: consume.simps)

lemma consume_not_blocked: "consume e ps argv ns ex \<noteq> Blocked"
proof (induction argv arbitrary: ns ex)
  case Nil
  show ?case by (simp add: consume.simps)
next
  case (Cons a xs)
  show ?case
    by (cases a) (auto simp add: consume.simps Cons.IH split: option.splits)
qed

text \<open>
  The namespace of a successful parse holds, for each option, the converted last value
  given on the command line, or what it held before when the option does not occur.
\<close>

lemma consume_result:
  "consume e parser argv ns ex = Returned args \<Longrightarrow>
   args ''port'' =
     (if option_values ''--port'' argv = [] then ns ''port''
      else map_option VInt (py_int e (last (option_values ''--port'' argv)))) \<and>
   (option_values ''--port'' argv \<noteq> [] \<longrightarrow>
      py_int e (last (option_values ''--port'' argv)) \<noteq> None) \<and>
   args ''directory'' =
     (if option_values ''--directory'' argv = [] then ns ''directory''
      else Some (VStr (last (option_values ''--directory'' argv))))"
proof (induction argv arbitrary: ns ex)
  case Nil
  then show ?case by (simp add: consume.simps split: if_splits)
next
  case (Cons a xs)
  show ?case
  proof (cases a)
    case Help
    with Cons.prems show ?thesis by (simp add: consume_help)
  next
    case (Unrecognized s)
    with Cons.prems have "consume e parser xs ns (ex @ [s]) = Returned args"
      by (simp add: consume_unrecognized)
    from Cons.IH [OF this] show ?thesis using Unrecognized by simp
  next
    case (Opt name v)
    consider (port) "name = ''--port''" | (dir) "name = ''--directory''"
      | (other) "name \<noteq> ''--port''" "name \<noteq> ''--directory''"
      by blast
    then show ?thesis
    proof cases
      case port
      show ?thesis
      proof (cases v)
        case None
        with Cons.prems Opt port show ?thesis by (simp add: consume_missing_value)
      next
        case (Some s)
        show ?thesis
        proof (cases "py_int e s")
          case None
          with Cons.prems Opt port Some show ?thesis by (simp add: consume_port)
        next
          case (Some n)
          with Cons.prems Opt port \<open>v = Some s\<close>
          have "consume e parser xs (ns(''port'' \<mapsto> VInt n)) ex = Returned args"
            by (simp add: consume_port)
          from Cons.IH [OF this] show ?thesis
            using Opt port \<open>v = Some s\<close> Some by simp
        qed
      qed
    next
      case dir
      show ?thesis
      proof (cases v)
        case None
        with Cons.prems Opt dir show ?thesis by (simp add: consume_missing_value)
      next
        case (Some s)
        with Cons.prems Opt dir
        have "consume e parser xs (ns(''directory'' \<mapsto> VStr s)) ex = Returned args"
          by (simp add: consume_directory)
        from Cons.IH [OF this] show ?thesis
          using Opt dir Some by simp
      qed
    next
      case other
      with Cons.prems Opt
      have "consume e parser xs ns (ex @ [name]) = Returned args"
        by (simp add: consume_undeclared)
      from Cons.IH [OF this] show ?thesis
        using Opt other by (cases v) simp_all
    qed
  qed
qed

lemma parse_args_typed:
  assumes "parse_args e parser argv = Returned args"
  shows "\<exists>port directory. args ''port'' = Some (VInt port) \<and> args ''directory'' = Some (VStr directory)"
  using consume_result [OF assms [unfolded parse_args_def]]
  by (auto simp add: defaults_parser split: if_splits)

text \<open>A value of \<open>--port\<close> that \<open>int\<close> refuses ends the parse with \<open>sys.exit\<close>.\<close>

lemma consume_bad_port:
  "Opt ''--port'' (Some v) \<in> set argv \<Longrightarrow> py_int e v = None \<Longrightarrow>
   consume e parser argv ns ex = Raised (SystemExit 2) \<or>
   consume e parser argv ns ex = Raised (SystemExit 0)"
proof (induction argv arbitrary: ns ex)
  case Nil
  then show ?case by simp
next
  case (Cons a xs)
  show ?case
  proof (cases "a = Opt ''--port'' (Some v)")
    case True
    with Cons.prems show ?thesis by (simp add: consume_port)
  next
    case False
    with Cons.prems have in_xs: "Opt ''--port'' (Some v) \<in> set xs" by simp
    note IH = Cons.IH [OF in_xs Cons.prems(2)]
    show ?thesis
    proof (cases a)
      case Help
      then show ?thesis by (simp add: consume_help)
    next
      case (Unrecognized s)
      then show ?thesis using IH by (simp add: consume_unrecognized)
    next
      case (Opt name vo)
      consider (port) "name = ''--port''" | (dir) "name = ''--directory''"
        | (other) "name \<noteq> ''--port''" "name \<noteq> ''--directory''"
        by blast
      then show ?thesis
      proof cases
        case port
        then show ?thesis using Opt IH
          by (cases vo) (simp_all add: consume_missing_value consume_port split: option.splits)
      next
        case dir
        then show ?thesis using Opt IH
          by (cases vo) (simp_all add: consume_missing_value consume_directory)
      next
        case other
        then show ?thesis using Opt IH by (simp add: consume_undeclared)
      qed
    qed
  qed
qed

lemma consume_bad_port_no_help:
  "Opt ''--port'' (Some v) \<in> set argv \<Longrightarrow> py_int e v = None \<Longrightarrow>
   Help \<notin> set (takeWhile (\<lambda>i. i \<noteq> Opt ''--port'' (Some v)) argv) \<Longrightarrow>
   consume e parser argv ns ex = Raised (SystemExit 2)"
proof (induction argv arbitrary: ns ex)
  case Nil
  then show ?case by simp
next
  case (Cons a xs)
  show ?case
  proof (cases "a = Opt ''--port'' (Some v)")
    case True
    with Cons.prems show ?thesis by (simp add: consume_port)
  next
    case False
    with Cons.prems have in_xs: "Opt ''--port'' (Some v) \<in> set xs"
      and no_help: "Help \<notin> set (takeWhile (\<lambda>i. i \<noteq> Opt ''--port'' (Some v)) xs)"
      and not_help: "a \<noteq> Help"
      by auto
    note IH = Cons.IH [OF in_xs Cons.prems(2) no_help]
    show ?thesis
    proof (cases a)
      case Help
      with not_help show ?thesis by simp
    next
      case (Unrecognized s)
      then show ?thesis using IH by (simp add: consume_unrecognized)
    next
      case (Opt name vo)
      consider (port) "name = ''--port''" | (dir) "name = ''--directory''"
        | (other) "name \<noteq> ''--port''" "name \<noteq> ''--directory''"
        by blast
      then show ?thesis
      proof cases
        case port
        then show ?thesis using Opt IH
          by (cases vo) (simp_all add: consume_missing_value consume_port split: option.splits)
      next
        case dir
        then show ?thesis using Opt IH
          by (cases vo) (simp_all add: consume_missing_value consume_directory)
      next
        case other
        then show ?thesis using Opt IH by (simp add: consume_undeclared)
      qed
    qed
  qed
qed

subsection \<open>Startup\<close>

text \<open>
  C1, as the claim states it, fails at port 0: \<open>--port 0\<close> is accepted and the bind
  succeeds, but the server does not listen on port 0. It listens on the port the
  operating system has chosen, here 49152.
\<close>

theorem port_zero_counterexample:
  "chdir_error (example_env\<lparr>serve_outcome := RunsForever\<rparr>) ''/srv/www'' = None \<and>
   bind_error (example_env\<lparr>serve_outcome := RunsForever\<rparr>) ('''', 0) = None \<and>
   fst (serve_static (example_env\<lparr>serve_outcome := RunsForever\<rparr>) 0 ''/srv/www'' initial_world)
     = Blocked \<and>
   sockets (snd (serve_static (example_env\<lparr>serve_outcome := RunsForever\<rparr>) 0 ''/srv/www''
                   initial_world)) = [(''0.0.0.0'', 49152)] \<and>
   (''0.0.0.0'', 0) \<notin>
     set (sockets (snd (serve_static (example_env\<lparr>serve_outcome := RunsForever\<rparr>) 0 ''/srv/www''
                          initial_world)))"
  by (simp add: serve_defs example_env_def initial_world_def)

text \<open>
  C1, amended: for every port \<open>p\<close> and every directory \<open>d\<close> that can be entered,
  \<open>serve_static\<close> first changes the working directory to \<open>d\<close> and only then constructs
  the server: the call of \<open>os.chdir\<close> is the first call and the constructor, at host
  \<open>""\<close> and port \<open>p\<close> with \<open>SimpleHTTPRequestHandler\<close>, is the second, and the
  working directory stays \<open>d\<close>. When the bind succeeds, the server has been built in a
  state whose working directory is \<open>d\<close>, its handler serves files relative to the
  working directory, \<open>d\<close>, and it listens on all interfaces, \<open>0.0.0.0\<close>: on port \<open>p\<close>
  when \<open>p\<close> is not 0, and on the port chosen by the operating system when \<open>p\<close> is 0.
\<close>

theorem serve_static_chdir_then_bind:
  assumes "chdir_error e d = None"
  shows "(\<exists>rest. new_events w (snd (serve_static e p d w)) =
            CallChdir d # CallTCPServer ('''', p) SimpleHTTPRequestHandler # rest) \<and>
         cwd (snd (serve_static e p d w)) = d \<and>
         (bind_error e ('''', p) = None \<longrightarrow>
            (\<exists>httpd w2.
               serve_static e p d w = with_exit httpd (with_body e p d httpd w2) \<and>
               new_events w w2 =
                 [CallChdir d, CallTCPServer ('''', p) SimpleHTTPRequestHandler] \<and>
               cwd w2 = d \<and>
               sockets w2 = (''0.0.0.0'', if p = 0 then ephemeral_port e else p) # sockets w \<and>
               server_address httpd = (''0.0.0.0'', if p = 0 then ephemeral_port e else p) \<and>
               served_root (RequestHandlerClass httpd) w2 = d))"
proof -
  define httpd where
    "httpd = \<lparr>server_address = getsockname e ('''', p),
               RequestHandlerClass = SimpleHTTPRequestHandler\<rparr>"
  define w2 where
    "w2 = snd (TCPServer e ('''', p) SimpleHTTPRequestHandler (snd (os_chdir e d w)))"
  have order: "\<exists>rest. new_events w (snd (serve_static e p d w)) =
      CallChdir d # CallTCPServer ('''', p) SimpleHTTPRequestHandler # rest"
    using assms
    by (cases "bind_error e ('''', p)"; cases "serve_outcome e") (simp_all add: serve_defs)
  have stays: "cwd (snd (serve_static e p d w)) = d"
    using assms
    by (cases "bind_error e ('''', p)"; cases "serve_outcome e") (simp_all add: serve_defs)
  have bound: "\<exists>httpd w2.
      serve_static e p d w = with_exit httpd (with_body e p d httpd w2) \<and>
      new_events w w2 = [CallChdir d, CallTCPServer ('''', p) SimpleHTTPRequestHandler] \<and>
      cwd w2 = d \<and>
      sockets w2 = (''0.0.0.0'', if p = 0 then ephemeral_port e else p) # sockets w \<and>
      server_address httpd = (''0.0.0.0'', if p = 0 then ephemeral_port e else p) \<and>
      served_root (RequestHandlerClass httpd) w2 = d"
    if ok: "bind_error e ('''', p) = None"
  proof -
    have run: "serve_static e p d w = with_exit httpd (with_body e p d httpd w2)"
      using assms ok
      by (simp add: serve_static_def os_chdir_def TCPServer_def Let_def httpd_def w2_def)
    have ev: "new_events w w2 = [CallChdir d, CallTCPServer ('''', p) SimpleHTTPRequestHandler]"
      using assms ok by (simp add: new_events_def os_chdir_def TCPServer_def Let_def w2_def)
    have dir: "cwd w2 = d"
      using assms ok by (simp add: os_chdir_def TCPServer_def Let_def w2_def)
    have sock: "sockets w2 = (''0.0.0.0'', if p = 0 then ephemeral_port e else p) # sockets w"
      using assms ok by (simp add: os_chdir_def TCPServer_def getsockname_def Let_def w2_def)
    have addr: "server_address httpd = (''0.0.0.0'', if p = 0 then ephemeral_port e else p)"
      by (simp add: httpd_def getsockname_def)
    have root: "served_root (RequestHandlerClass httpd) w2 = d"
      using dir by (simp add: httpd_def)
    from run ev dir sock addr root show ?thesis by blast
  qed
  from order stays bound show ?thesis by blast
qed

theorem serve_static_chdir_then_bind_witness:
  "chdir_error example_env ''/srv/www'' = None \<and> bind_error example_env ('''', 8000) = None \<and>
   (\<exists>rest. new_events initial_world (snd (serve_static example_env 8000 ''/srv/www'' initial_world)) =
      CallChdir ''/srv/www'' # CallTCPServer ('''', 8000) SimpleHTTPRequestHandler # rest) \<and>
   cwd (snd (serve_static example_env 8000 ''/srv/www'' initial_world)) = ''/srv/www'' \<and>
   (\<exists>httpd w2.
      serve_static example_env 8000 ''/srv/www'' initial_world =
        with_exit httpd (with_body example_env 8000 ''/srv/www'' httpd w2) \<and>
      new_events initial_world w2 =
        [CallChdir ''/srv/www'', CallTCPServer ('''', 8000) SimpleHTTPRequestHandler] \<and>
      cwd w2 = ''/srv/www'' \<and>
      sockets w2 = (''0.0.0.0'', 8000) # sockets initial_world \<and>
      server_address httpd = (''0.0.0.0'', 8000) \<and>
      served_root (RequestHandlerClass httpd) w2 = ''/srv/www'')"
proof -
  have c: "chdir_error example_env ''/srv/www'' = None" by (simp add: example_env_def)
  have b: "bind_error example_env ('''', 8000) = None" by (simp add: example_env_def)
  have z: "(if (8000::int) = 0 then ephemeral_port example_env else 8000) = 8000" by simp
  from c b serve_static_chdir_then_bind [OF c, of initial_world 8000] show ?thesis
    unfolding z by blast
qed

text \<open>
  C3: for every directory \<open>d\<close> that \<open>os.chdir\<close> refuses, \<open>serve_static\<close> fails with the
  exception of \<open>os.chdir\<close> before any socket is bound: \<open>os.chdir\<close> is the only call made,
  the server constructor is never called, and the process owns the same sockets and is in
  the same directory as before.
\<close>

theorem serve_static_invalid_directory:
  assumes "chdir_error e d = Some x"
  shows "fst (serve_static e p d w) = Raised x \<and>
         new_events w (snd (serve_static e p d w)) = [CallChdir d] \<and>
         (\<forall>a h. CallTCPServer a h \<notin> set (new_events w (snd (serve_static e p d w)))) \<and>
         sockets (snd (serve_static e p d w)) = sockets w \<and>
         cwd (snd (serve_static e p d w)) = cwd w"
  using assms by (simp add: serve_defs)

theorem serve_static_invalid_directory_witness:
  "chdir_error example_env ''/missing'' = Some (OSError ''ENOENT'') \<and>
   fst (serve_static example_env 8000 ''/missing'' initial_world) = Raised (OSError ''ENOENT'') \<and>
   new_events initial_world (snd (serve_static example_env 8000 ''/missing'' initial_world)) =
     [CallChdir ''/missing''] \<and>
   sockets (snd (serve_static example_env 8000 ''/missing'' initial_world)) = []"
proof -
  have c: "chdir_error example_env ''/missing'' = Some (OSError ''ENOENT'')"
    by (simp add: example_env_def)
  from c serve_static_invalid_directory [OF c, of 8000 initial_world] show ?thesis
    by (simp add: initial_world_def)
qed

text \<open>
  C4: for every port \<open>p\<close> whose bind fails with an operating-system error (the port is
  taken by another process), \<open>serve_static\<close> fails in the constructor of the server: the
  constructor is the last call made, the process owns no listening socket it did not own
  before, the error leaves \<open>serve_static\<close> uncaught, and the process ends with a nonzero
  status.
\<close>

theorem serve_static_port_in_use:
  assumes "chdir_error e d = None" and "bind_error e ('''', p) = Some (OSError errno)"
  shows "fst (serve_static e p d w) = Raised (OSError errno) \<and>
         new_events w (snd (serve_static e p d w)) =
           [CallChdir d, CallTCPServer ('''', p) SimpleHTTPRequestHandler] \<and>
         sockets (snd (serve_static e p d w)) = sockets w \<and>
         process_exit (fst (serve_static e p d w)) = Failure"
  using assms by (simp add: serve_defs)

theorem serve_static_port_in_use_witness:
  "chdir_error example_env ''/srv/www'' = None \<and>
   bind_error example_env ('''', 80) = Some (OSError ''EADDRINUSE'') \<and>
   fst (serve_static example_env 80 ''/srv/www'' initial_world) = Raised (OSError ''EADDRINUSE'') \<and>
   sockets (snd (serve_static example_env 80 ''/srv/www'' initial_world)) = [] \<and>
   process_exit (fst (serve_static example_env 80 ''/srv/www'' initial_world)) = Failure"
proof -
  have c: "chdir_error example_env ''/srv/www'' = None" by (simp add: example_env_def)
  have b: "bind_error example_env ('''', 80) = Some (OSError ''EADDRINUSE'')"
    by (simp add: example_env_def)
  from c b serve_static_port_in_use [OF c b, of initial_world] show ?thesis
    by (simp add: initial_world_def)
qed

text \<open>
  C10: the startup line is printed only after the server has been constructed and its
  socket bound. When both \<open>os.chdir\<close> and the bind succeed, the print of the startup line is
  the third call, right after the constructor; in every run in which \<open>os.chdir\<close> or the
  bind fails, nothing is printed and standard output is unchanged.
\<close>

theorem startup_message_only_after_bind:
  "(chdir_error e d = None \<and> bind_error e ('''', p) = None \<longrightarrow>
      take 3 (new_events w (snd (serve_static e p d w))) =
        [CallChdir d, CallTCPServer ('''', p) SimpleHTTPRequestHandler,
         CallPrint (startup_message d p)]) \<and>
   (chdir_error e d \<noteq> None \<or> bind_error e ('''', p) \<noteq> None \<longrightarrow>
      stdout (snd (serve_static e p d w)) = stdout w \<and>
      (\<forall>s. CallPrint s \<notin> set (new_events w (snd (serve_static e p d w)))))"
  by (cases "chdir_error e d"; cases "bind_error e ('''', p)"; cases "serve_outcome e")
     (simp_all add: serve_defs)

theorem startup_message_only_after_bind_witness:
  "bind_error example_env ('''', 80) \<noteq> None \<and>
   stdout (snd (serve_static example_env 80 ''/srv/www'' initial_world)) = stdout initial_world \<and>
   (\<forall>s. CallPrint s \<notin>
      set (new_events initial_world (snd (serve_static example_env 80 ''/srv/www'' initial_world)))) \<and>
   chdir_error example_env ''/srv/www'' = None \<and> bind_error example_env ('''', 8000) = None \<and>
   take 3 (new_events initial_world (snd (serve_static example_env 8000 ''/srv/www'' initial_world))) =
     [CallChdir ''/srv/www'', CallTCPServer ('''', 8000) SimpleHTTPRequestHandler,
      CallPrint (startup_message ''/srv/www'' 8000)]"
proof -
  have b: "bind_error example_env ('''', 80) \<noteq> None" by (simp add: example_env_def)
  have c: "chdir_error example_env ''/srv/www'' = None" by (simp add: example_env_def)
  have b': "bind_error example_env ('''', 8000) = None" by (simp add: example_env_def)
  from b c b'
    startup_message_only_after_bind [of example_env "''/srv/www''" 80 initial_world]
    startup_message_only_after_bind [of example_env "''/srv/www''" 8000 initial_world]
  show ?thesis by blast
qed

subsection \<open>Interrupts and other exceptions\<close>

text \<open>
  C2: if \<open>KeyboardInterrupt\<close> is raised while \<open>serve_forever\<close> runs, \<open>serve_static\<close>
  catches it, prints the shutdown message, a newline followed by
  \<open>Shutting down the server.\<close>, to standard output after the startup line, and returns
  normally, so that the process ends with status 0.
\<close>

theorem serve_static_keyboard_interrupt:
  assumes "chdir_error e d = None" and "bind_error e ('''', p) = None"
    and "serve_outcome e = Raises KeyboardInterrupt"
  shows "fst (serve_static e p d w) = Returned () \<and>
         stdout (snd (serve_static e p d w)) =
           stdout w @ startup_message d p @ [newline]
             @ (newline # ''Shutting down the server.'') @ [newline] \<and>
         process_exit (fst (serve_static e p d w)) = Success"
  using assms by (simp add: serve_defs shutdown_message_def)

theorem serve_static_keyboard_interrupt_witness:
  "chdir_error example_env ''/srv/www'' = None \<and> bind_error example_env ('''', 8000) = None \<and>
   serve_outcome example_env = Raises KeyboardInterrupt \<and>
   fst (serve_static example_env 8000 ''/srv/www'' initial_world) = Returned () \<and>
   stdout (snd (serve_static example_env 8000 ''/srv/www'' initial_world)) =
     ''Serving static files from '' @ [CHR 0x27] @ ''/srv/www'' @ [CHR 0x27]
       @ '' at http://localhost:8000'' @ [newline]
       @ (newline # ''Shutting down the server.'') @ [newline]"
proof -
  have c: "chdir_error example_env ''/srv/www'' = None" by (simp add: example_env_def)
  have b: "bind_error example_env ('''', 8000) = None" by (simp add: example_env_def)
  have s: "serve_outcome example_env = Raises KeyboardInterrupt" by (simp add: example_env_def)
  from c b s serve_static_keyboard_interrupt [OF c b s, of initial_world] show ?thesis
    by (simp add: initial_world_def startup_message_example)
qed

text \<open>
  C6: \<open>serve_static\<close> ends by raising \<open>x\<close> exactly when \<open>os.chdir\<close> raises \<open>x\<close>, or the
  construction of the server raises \<open>x\<close>, or the serve loop raises \<open>x\<close> and \<open>x\<close> is not
  \<open>KeyboardInterrupt\<close>. So every exception of the startup, \<open>KeyboardInterrupt\<close>
  included, and every other exception of the serve loop propagates, and
  \<open>KeyboardInterrupt\<close> in the serve loop is the only exception that is caught.
\<close>

theorem only_keyboard_interrupt_is_caught:
  "fst (serve_static e p d w) = Raised x \<longleftrightarrow>
     chdir_error e d = Some x \<or>
     (chdir_error e d = None \<and> bind_error e ('''', p) = Some x) \<or>
     (chdir_error e d = None \<and> bind_error e ('''', p) = None \<and>
      serve_outcome e = Raises x \<and> x \<noteq> KeyboardInterrupt)"
  by (cases "chdir_error e d"; cases "bind_error e ('''', p)"; cases "serve_outcome e")
     (auto simp add: serve_defs)

theorem only_keyboard_interrupt_is_caught_witness:
  "chdir_error (example_env\<lparr>serve_outcome := Raises (OSError ''EBADF'')\<rparr>) ''/srv/www'' = None \<and>
   bind_error (example_env\<lparr>serve_outcome := Raises (OSError ''EBADF'')\<rparr>) ('''', 8000) = None \<and>
   serve_outcome (example_env\<lparr>serve_outcome := Raises (OSError ''EBADF'')\<rparr>)
     = Raises (OSError ''EBADF'') \<and>
   OSError ''EBADF'' \<noteq> KeyboardInterrupt \<and>
   fst (serve_static (example_env\<lparr>serve_outcome := Raises (OSError ''EBADF'')\<rparr>)
          8000 ''/srv/www'' initial_world) = Raised (OSError ''EBADF'') \<and>
   fst (serve_static example_env 8000 ''/srv/www'' initial_world) \<noteq> Raised KeyboardInterrupt"
  using
    only_keyboard_interrupt_is_caught
      [of "example_env\<lparr>serve_outcome := Raises (OSError ''EBADF'')\<rparr>" 8000 "''/srv/www''"
          initial_world "OSError ''EBADF''"]
    only_keyboard_interrupt_is_caught
      [of example_env 8000 "''/srv/www''" initial_world KeyboardInterrupt]
  by (simp add: example_env_def)

text \<open>
  C7: when the running server is interrupted, \<open>serve_static\<close> prints the shutdown notice
  and then closes the server before it returns: the last two calls are the print of the
  notice and \<open>server_close\<close> of the \<^verbatim>\<open>with\<close> statement, in this order. After the
  return the process owns exactly the listening sockets it owned before the call, so the
  server's socket is not left open, and it holds exactly the connections it held before
  the call, so none of the connections the server accepted is left open, whether the
  interrupt came while the loop was waiting or while a request was being served.
\<close>

theorem interrupt_leaves_nothing_open:
  assumes "chdir_error e d = None" and "bind_error e ('''', p) = None"
    and "serve_outcome e = Raises KeyboardInterrupt"
  shows "fst (serve_static e p d w) = Returned () \<and>
         new_events w (snd (serve_static e p d w)) =
           [CallChdir d, CallTCPServer ('''', p) SimpleHTTPRequestHandler,
            CallPrint (startup_message d p), CallServeForever,
            CallPrint shutdown_message, CallServerClose] \<and>
         sockets (snd (serve_static e p d w)) = sockets w \<and>
         connections (snd (serve_static e p d w)) = connections w"
  using assms by (simp add: serve_defs)

theorem interrupt_leaves_nothing_open_witness:
  "chdir_error example_env ''/srv/www'' = None \<and> bind_error example_env ('''', 8000) = None \<and>
   serve_outcome example_env = Raises KeyboardInterrupt \<and>
   served example_env = [1, 2] \<and> in_service example_env = Some 3 \<and>
   new_events initial_world (snd (serve_static example_env 8000 ''/srv/www'' initial_world)) =
     [CallChdir ''/srv/www'', CallTCPServer ('''', 8000) SimpleHTTPRequestHandler,
      CallPrint (startup_message ''/srv/www'' 8000), CallServeForever,
      CallPrint shutdown_message, CallServerClose] \<and>
   sockets (snd (serve_static example_env 8000 ''/srv/www'' initial_world)) = [] \<and>
   connections (snd (serve_static example_env 8000 ''/srv/www'' initial_world)) = []"
proof -
  have c: "chdir_error example_env ''/srv/www'' = None" by (simp add: example_env_def)
  have b: "bind_error example_env ('''', 8000) = None" by (simp add: example_env_def)
  have s: "serve_outcome example_env = Raises KeyboardInterrupt" by (simp add: example_env_def)
  have r: "served example_env = [1, 2]" "in_service example_env = Some 3"
    by (simp_all add: example_env_def)
  from c b s r interrupt_leaves_nothing_open [OF c b s, of initial_world] show ?thesis
    by (simp add: initial_world_def)
qed

text \<open>
  C8: the pair (port, directory) that \<open>serve_static\<close> is called with is the pair every
  use reads, in every run: each \<open>os.chdir\<close> goes to \<open>directory\<close>, each server is
  constructed at host \<open>""\<close> and \<open>port\<close>, and each line printed is the startup line
  formatted from \<open>directory\<close> and \<open>port\<close> or the shutdown notice.
\<close>

theorem configuration_never_changes:
  "\<forall>ev \<in> set (new_events w (snd (serve_static e port directory w))).
     (case ev of
        CallChdir path \<Rightarrow> path = directory
      | CallTCPServer addr h \<Rightarrow> addr = ('''', port)
      | CallPrint s \<Rightarrow> s = startup_message directory port \<or> s = shutdown_message
      | _ \<Rightarrow> True)"
  by (cases "chdir_error e directory"; cases "bind_error e ('''', port)"; cases "serve_outcome e")
     (auto simp add: serve_defs)

theorem configuration_never_changes_witness:
  "CallChdir ''/srv/www'' \<in>
     set (new_events initial_world (snd (serve_static example_env 8000 ''/srv/www'' initial_world))) \<and>
   CallTCPServer ('''', 8000) SimpleHTTPRequestHandler \<in>
     set (new_events initial_world (snd (serve_static example_env 8000 ''/srv/www'' initial_world))) \<and>
   CallChdir ''/tmp'' \<notin>
     set (new_events initial_world (snd (serve_static example_env 8000 ''/srv/www'' initial_world))) \<and>
   CallTCPServer ('''', 80) SimpleHTTPRequestHandler \<notin>
     set (new_events initial_world (snd (serve_static example_env 8000 ''/srv/www'' initial_world)))"
proof -
  let ?evs =
    "new_events initial_world (snd (serve_static example_env 8000 ''/srv/www'' initial_world))"
  note inv = configuration_never_changes [of initial_world example_env 8000 "''/srv/www''"]
  have evs: "?evs =
     [CallChdir ''/srv/www'', CallTCPServer ('''', 8000) SimpleHTTPRequestHandler,
      CallPrint (startup_message ''/srv/www'' 8000), CallServeForever,
      CallPrint shutdown_message, CallServerClose]"
    by (simp add: serve_defs example_env_def initial_world_def)
  have 1: "CallChdir ''/srv/www'' \<in> set ?evs"
    by (simp add: evs)
  have 2: "CallTCPServer ('''', 8000) SimpleHTTPRequestHandler \<in> set ?evs"
    by (simp add: evs)
  have 3: "CallChdir ''/tmp'' \<notin> set ?evs"
    using inv by force
  have 4: "CallTCPServer ('''', 80) SimpleHTTPRequestHandler \<notin> set ?evs"
    using inv by force
  from 1 2 3 4 show ?thesis by blast
qed

subsection \<open>The command line\<close>

text \<open>
  C5, as the claim states it, fails: the parser accepts a third option. An invocation
  with \<open>-h\<close>/\<open>--help\<close> is accepted, ends with status 0 and never calls \<open>serve_static\<close>.
\<close>

theorem help_is_accepted_counterexample:
  "main example_env [Help] initial_world = (Raised (SystemExit 0), initial_world) \<and>
   process_exit (fst (main example_env [Help] initial_world)) = Success \<and>
   new_events initial_world (snd (main example_env [Help] initial_world)) = []"
  by (simp add: main_def parse_args_def consume_help new_events_def)

text \<open>
  C5, amended: the parser declares exactly the two options \<open>--port\<close> and \<open>--directory\<close>
  next to the \<open>-h\<close>/\<open>--help\<close> of \<open>argparse\<close>. When the parse succeeds, \<open>main\<close> calls
  \<open>serve_static\<close> with exactly the parsed pair: the port is the integer of the last
  \<open>--port\<close> value, or 8000 when the option is omitted, and the directory is the last
  \<open>--directory\<close> value, or \<open>"."\<close> when the option is omitted. When the parse ends in
  \<open>sys.exit\<close>, \<open>main\<close> ends with it and does nothing else. The command line is the only
  input that decides the pair.
\<close>

theorem main_passes_parsed_pair:
  "map option_string (arguments parser) = [''--port'', ''--directory''] \<and>
   add_help parser \<and>
   (case parse_args e parser argv of
      Returned args \<Rightarrow>
        (\<exists>port directory.
           (if option_values ''--port'' argv = [] then port = 8000
            else py_int e (last (option_values ''--port'' argv)) = Some port) \<and>
           directory =
             (if option_values ''--directory'' argv = [] then ''.''
              else last (option_values ''--directory'' argv)) \<and>
           args ''port'' = Some (VInt port) \<and>
           args ''directory'' = Some (VStr directory) \<and>
           main e argv w = serve_static e port directory w)
    | Raised x \<Rightarrow> main e argv w = (Raised x, w)
    | Blocked \<Rightarrow> False)"
proof -
  have decl: "map option_string (arguments parser) = [''--port'', ''--directory'']"
    by (simp add: parser_arguments)
  have rest: "(case parse_args e parser argv of
      Returned args \<Rightarrow>
        (\<exists>port directory.
           (if option_values ''--port'' argv = [] then port = 8000
            else py_int e (last (option_values ''--port'' argv)) = Some port) \<and>
           directory =
             (if option_values ''--directory'' argv = [] then ''.''
              else last (option_values ''--directory'' argv)) \<and>
           args ''port'' = Some (VInt port) \<and>
           args ''directory'' = Some (VStr directory) \<and>
           main e argv w = serve_static e port directory w)
    | Raised x \<Rightarrow> main e argv w = (Raised x, w)
    | Blocked \<Rightarrow> False)"
  proof (cases "parse_args e parser argv")
    case (Returned args)
    note r = consume_result [OF Returned [unfolded parse_args_def]]
    from parse_args_typed [OF Returned] obtain port directory
      where pd: "args ''port'' = Some (VInt port)" "args ''directory'' = Some (VStr directory)"
      by blast
    have 1: "if option_values ''--port'' argv = [] then port = 8000
             else py_int e (last (option_values ''--port'' argv)) = Some port"
      using r pd by (auto simp add: defaults_parser split: if_splits)
    have 2: "directory =
        (if option_values ''--directory'' argv = [] then ''.''
         else last (option_values ''--directory'' argv))"
      using r pd by (auto simp add: defaults_parser split: if_splits)
    have 3: "main e argv w = serve_static e port directory w"
      using Returned pd by (simp add: main_def)
    from 1 2 3 pd show ?thesis unfolding Returned by auto
  next
    case (Raised x)
    then show ?thesis by (simp add: main_def)
  next
    case Blocked
    then show ?thesis by (simp add: parse_args_def consume_not_blocked)
  qed
  from decl parser_add_help rest show ?thesis by blast
qed

theorem main_passes_parsed_pair_witness:
  "main example_env [Opt ''--port'' (Some ''8080'')] initial_world =
     serve_static example_env 8080 ''.'' initial_world \<and>
   main example_env [] initial_world = serve_static example_env 8000 ''.'' initial_world"
  using
    main_passes_parsed_pair
      [where e = example_env and argv = "[Opt ''--port'' (Some ''8080'')]" and w = initial_world]
    main_passes_parsed_pair [where e = example_env and argv = "[]" and w = initial_world]
  by (auto simp add: parse_args_def consume_port consume.simps(1) example_env_def defaults_parser)

text \<open>
  C9, as the claim states it, fails: with \<open>--help\<close> in front of a \<open>--port\<close> value that
  is not an integer, the help action ends the process with status 0 before the value is
  converted, so the process does not exit with a usage error.
\<close>

theorem help_before_bad_port_counterexample:
  "py_int example_env ''abc'' = None \<and>
   main example_env [Help, Opt ''--port'' (Some ''abc'')] initial_world =
     (Raised (SystemExit 0), initial_world)"
  by (simp add: main_def parse_args_def consume_help example_env_def)

text \<open>
  C9, amended: for every invocation in which a value of \<open>--port\<close> is not parseable as an
  integer, argument parsing ends the process before \<open>serve_static\<close> is called, so the
  state is untouched: no change of the working directory and no bind. The exit is a usage
  error (status 2), unless \<open>-h\<close>/\<open>--help\<close> comes before the value on the command line:
  then the exit can be that of the help action (status 0).
\<close>

theorem unparseable_port_never_serves:
  assumes "Opt ''--port'' (Some v) \<in> set argv" and "py_int e v = None"
  shows "(main e argv w = (Raised (SystemExit 2), w) \<or>
          main e argv w = (Raised (SystemExit 0), w)) \<and>
         new_events w (snd (main e argv w)) = [] \<and>
         cwd (snd (main e argv w)) = cwd w \<and>
         sockets (snd (main e argv w)) = sockets w \<and>
         (Help \<notin> set (takeWhile (\<lambda>i. i \<noteq> Opt ''--port'' (Some v)) argv) \<longrightarrow>
            main e argv w = (Raised (SystemExit 2), w))"
proof -
  from consume_bad_port [OF assms, of "defaults parser" "[]"]
  have exits: "main e argv w = (Raised (SystemExit 2), w) \<or>
               main e argv w = (Raised (SystemExit 0), w)"
    by (auto simp add: main_def parse_args_def)
  have usage: "Help \<notin> set (takeWhile (\<lambda>i. i \<noteq> Opt ''--port'' (Some v)) argv) \<longrightarrow>
               main e argv w = (Raised (SystemExit 2), w)"
    using consume_bad_port_no_help [OF assms] by (simp add: main_def parse_args_def)
  from exits have "snd (main e argv w) = w" by auto
  with exits usage show ?thesis by (simp add: new_events_def)
qed

theorem unparseable_port_never_serves_witness:
  "Opt ''--port'' (Some ''abc'') \<in>
     set [Opt ''--directory'' (Some ''/srv/www''), Opt ''--port'' (Some ''abc'')] \<and>
   py_int example_env ''abc'' = None \<and>
   main example_env [Opt ''--directory'' (Some ''/srv/www''), Opt ''--port'' (Some ''abc'')]
     initial_world = (Raised (SystemExit 2), initial_world)"
proof -
  have m: "Opt ''--port'' (Some ''abc'') \<in>
      set [Opt ''--directory'' (Some ''/srv/www''), Opt ''--port'' (Some ''abc'')]"
    by simp
  have i: "py_int example_env ''abc'' = None" by (simp add: example_env_def)
  from m i unparseable_port_never_serves [OF m i, of initial_world] show ?thesis by simp
qed

end
